theory Spec2Isabelle
  imports Main
begin

section \<open>The qubes connection plugin (\<^verbatim>\<open>ansible_module/conns/qubes.py\<close>)\<close>

text \<open>
  The plugin drives the external tool \<^verbatim>\<open>qvm-run\<close> through \<^verbatim>\<open>subprocess.Popen\<close>
  and touches the local file system through \<^verbatim>\<open>open\<close>. Both are made explicit:
  a \<open>world\<close> holds the local files and the list of all \<^verbatim>\<open>Popen\<close> calls made so far,
  and the behaviour of the started program is a parameter \<open>popen\<close> of every operation.
  Python text and bytes are both modelled as byte strings (\<open>string\<close>), so that
  \<^verbatim>\<open>to_bytes\<close> is the identity. The calls to \<^verbatim>\<open>display\<close> only log and are left out.
\<close>

subsection \<open>Data\<close>

type_synonym bytes = string

abbreviation NL :: char where "NL \<equiv> CHR 0x0A"

text \<open>The exceptions the plugin can end with.\<close>

datatype error =
    AttributeError
  | IOError string
  | OSError
  | RuntimeError string

text \<open>
  What a \<^verbatim>\<open>Popen\<close> call leads to: the program cannot be started, or it runs and
  exits with a return code, having written some bytes to its standard output and to its
  standard error.
\<close>

datatype outcome = SpawnFails | Exits int bytes bytes

text \<open>
  One \<^verbatim>\<open>Popen\<close> call: the argument vector, the bytes the caller supplies on the
  child's standard input (\<open>None\<close> when the input is not a pipe), the local file the
  child's standard output is redirected to (\<open>None\<close> for a pipe), and the outcome.
\<close>

record popen_call =
  argv :: "string list"
  input :: "bytes option"
  stdout_path :: "string option"
  result :: outcome

record world =
  files :: "string \<rightharpoonup> bytes"
  writable :: "string \<Rightarrow> bool"
  popen_calls :: "popen_call list"

text \<open>
  The external program: from the world at the time of the call, the argument vector and
  the bytes on its standard input to its outcome.
\<close>

type_synonym popen = "world \<Rightarrow> string list \<Rightarrow> bytes option \<Rightarrow> outcome"

text \<open>The part of Ansible's play context that \<^verbatim>\<open>__init__\<close> reads.\<close>

record play_context =
  remote_addr :: string
  remote_user :: "string option"

text \<open>The attributes of a \<^verbatim>\<open>Connection\<close> object.\<close>

record connection =
  remote_vmname :: string
  connected :: bool
  user :: string

subsection \<open>Library functions\<close>

text \<open>\<^verbatim>\<open>str.endswith\<close>.\<close>

definition endswith :: "string \<Rightarrow> string \<Rightarrow> bool" where
  "endswith s suffix \<longleftrightarrow>
     length suffix \<le> length s \<and> drop (length s - length suffix) s = suffix"

text \<open>\<^verbatim>\<open>to_bytes\<close> on a byte string.\<close>

definition to_bytes :: "string \<Rightarrow> bytes" where
  "to_bytes s = s"

text \<open>
  \<^verbatim>\<open>subprocess.Popen\<close> with the write to the child's standard input and
  \<^verbatim>\<open>communicate\<close>: the program runs on the given input, the call is added to the
  list of calls, and when the standard output is redirected to a local file, the bytes
  the child has written are the new contents of that file.
\<close>

definition run_child ::
  "popen \<Rightarrow> string list \<Rightarrow> bytes option \<Rightarrow> string option \<Rightarrow> world \<Rightarrow> outcome \<times> world" where
  "run_child popen args stdin_bytes out_file w =
     (let r = popen w args stdin_bytes;
          w1 = w\<lparr>popen_calls := popen_calls w @
                 [\<lparr>argv = args, input = stdin_bytes, stdout_path = out_file, result = r\<rparr>]\<rparr>
      in (r, case out_file of
               None \<Rightarrow> w1
             | Some path \<Rightarrow>
                 (case r of
                    SpawnFails \<Rightarrow> w1
                  | Exits returncode stdout stderr \<Rightarrow> w1\<lparr>files := (files w1)(path \<mapsto> stdout)\<rparr>)))"

text \<open>
  The base class \<^verbatim>\<open>ConnectionBase\<close> and the decorator \<^verbatim>\<open>ensure_connect\<close> are imported
  from \<^verbatim>\<open>ansible.plugins.connection\<close>. There the decorator is
  \<^verbatim>\<open>if not self._connected: self._connect()\<close> followed by the call of the wrapped
  method; the base class's \<^verbatim>\<open>_connect\<close> and \<^verbatim>\<open>close\<close> are abstract methods with an
  empty body, and its \<^verbatim>\<open>exec_command\<close>, \<^verbatim>\<open>put_file\<close> and \<^verbatim>\<open>fetch_file\<close> are
  abstract methods with an empty body under the same decorator.
\<close>

definition ConnectionBase_connect :: "connection \<Rightarrow> connection" where
  "ConnectionBase_connect self = self"

definition ConnectionBase_close :: "connection \<Rightarrow> connection" where
  "ConnectionBase_close self = self"

subsection \<open>The class \<^verbatim>\<open>Connection\<close>\<close>

definition transport :: string where
  "transport = ''qubes''"

definition has_pipelining :: bool where
  "has_pipelining = True"

text \<open>\<^verbatim>\<open>__init__\<close>: an empty or missing remote user leaves the default \<^verbatim>\<open>"user"\<close>.\<close>

definition init :: "play_context \<Rightarrow> connection" where
  "init pc =
     (let self = \<lparr>remote_vmname = remote_addr pc, connected = False, user = ''user''\<rparr>
      in case remote_user pc of
           None \<Rightarrow> self
         | Some u \<Rightarrow> if u \<noteq> [] then self\<lparr>user := u\<rparr> else self)"

text \<open>
  \<^verbatim>\<open>_qubes(cmd=None, in_data=None, shell="qubes.VMShell")\<close>. The command is written
  to the child's standard input first, \<^verbatim>\<open>communicate\<close> then writes \<open>in_data\<close> and
  closes the pipe. With \<open>cmd = None\<close> the call \<^verbatim>\<open>cmd.endswith\<close> raises.
\<close>

definition default_shell :: string where
  "default_shell = ''qubes.VMShell''"

definition qubes ::
  "popen \<Rightarrow> connection \<Rightarrow> string option \<Rightarrow> bytes option \<Rightarrow> string \<Rightarrow> world
     \<Rightarrow> (error + int \<times> bytes \<times> bytes) \<times> world" where
  "qubes popen self cmd in_data shell w =
     (case cmd of
        None \<Rightarrow> (Inl AttributeError, w)
      | Some cmd0 \<Rightarrow>
          let cmd1 = (if \<not> endswith cmd0 [NL] then cmd0 @ [NL] else cmd0);
              local_cmd0 = [''qvm-run'', ''--pass-io'', ''--service''];
              local_cmd1 = (if user self \<noteq> ''user''
                            then local_cmd0 @ [''-u'', user self] else local_cmd0);
              local_cmd2 = local_cmd1 @ [remote_vmname self];
              local_cmd3 = local_cmd2 @ [shell];
              local_cmd = map to_bytes local_cmd3;
              sent = to_bytes cmd1 @ (case in_data of None \<Rightarrow> [] | Some d \<Rightarrow> d);
              (r, w') = run_child popen local_cmd (Some sent) None w
          in (case r of
                SpawnFails \<Rightarrow> (Inl OSError, w')
              | Exits returncode stdout stderr \<Rightarrow> (Inr (returncode, stdout, stderr), w')))"

text \<open>\<^verbatim>\<open>_connect\<close> and \<^verbatim>\<open>close\<close>.\<close>

definition connect :: "connection \<Rightarrow> connection" where
  "connect self = (ConnectionBase_connect self)\<lparr>connected := True\<rparr>"

definition close :: "connection \<Rightarrow> connection" where
  "close self = (ConnectionBase_close self)\<lparr>connected := False\<rparr>"

text \<open>
  The decorator, and the three decorated methods of the base class; \<^verbatim>\<open>self._connect()\<close>
  is the method of the subclass.
\<close>

definition ensure_connect :: "(connection \<Rightarrow> 'a) \<Rightarrow> connection \<Rightarrow> 'a" where
  "ensure_connect func self =
     (if \<not> connected self then func (connect self) else func self)"

definition ConnectionBase_exec_command ::
  "string \<Rightarrow> bytes option \<Rightarrow> bool \<Rightarrow> connection \<Rightarrow> connection" where
  "ConnectionBase_exec_command cmd in_data sudoable = ensure_connect (\<lambda>self. self)"

definition ConnectionBase_put_file :: "string \<Rightarrow> string \<Rightarrow> connection \<Rightarrow> connection" where
  "ConnectionBase_put_file in_path out_path = ensure_connect (\<lambda>self. self)"

definition ConnectionBase_fetch_file :: "string \<Rightarrow> string \<Rightarrow> connection \<Rightarrow> connection" where
  "ConnectionBase_fetch_file in_path out_path = ensure_connect (\<lambda>self. self)"

text \<open>
  \<^verbatim>\<open>exec_command(cmd, in_data=None, sudoable=False)\<close>, under \<^verbatim>\<open>@ensure_connect\<close>.
  Each operation returns its result or exception, the connection object and the world.
\<close>

definition exec_command ::
  "popen \<Rightarrow> string \<Rightarrow> bytes option \<Rightarrow> bool \<Rightarrow> connection \<Rightarrow> world
     \<Rightarrow> (error + int \<times> bytes \<times> bytes) \<times> connection \<times> world" where
  "exec_command popen cmd in_data sudoable =
     ensure_connect (\<lambda>self0 w.
       let self = ConnectionBase_exec_command cmd in_data sudoable self0;
           (r, w') = qubes popen self (Some cmd) None default_shell w
       in (r, self, w'))"

text \<open>\<^verbatim>\<open>put_file(in_path, out_path)\<close>.\<close>

definition put_file ::
  "popen \<Rightarrow> string \<Rightarrow> string \<Rightarrow> connection \<Rightarrow> world
     \<Rightarrow> (error + unit) \<times> connection \<times> world" where
  \<open>put_file popen in_path out_path self0 w =
     (let self = ConnectionBase_put_file in_path out_path self0
      in case files w in_path of
           None \<Rightarrow> (Inl (IOError in_path), self, w)
         | Some source_data \<Rightarrow>
            (case qubes popen self (Some (''cat > "'' @ out_path @ ''"'' @ [NL]))
                    (Some source_data) ''qubes.VMRootShell'' w of
               (Inl e, w1) \<Rightarrow> (Inl e, self, w1)
             | (Inr (retcode, dummy, dummy'), w1) \<Rightarrow>
                (case (if retcode = 127
                       then qubes popen self (Some (''cat > "'' @ out_path @ ''"'' @ [NL]))
                              (Some source_data) default_shell w1
                       else (Inr (retcode, dummy, dummy'), w1)) of
                   (Inl e, w2) \<Rightarrow> (Inl e, self, w2)
                 | (Inr (retcode', dummy2, dummy2'), w2) \<Rightarrow>
                     if retcode' \<noteq> 0
                     then (Inl (RuntimeError (''Failed to put_file to '' @ out_path)), self, w2)
                     else (Inr (), self, w2))))\<close>

text \<open>
  \<^verbatim>\<open>fetch_file(in_path, out_path)\<close>. Opening the local file for writing creates or
  truncates it before the child is started; the child writes its output to the file.
\<close>

definition fetch_file ::
  "popen \<Rightarrow> string \<Rightarrow> string \<Rightarrow> connection \<Rightarrow> world
     \<Rightarrow> (error + unit) \<times> connection \<times> world" where
  "fetch_file popen in_path out_path self0 w =
     (let self = ConnectionBase_fetch_file in_path out_path self0;
          cmd_args_list = [''qvm-run'', ''--pass-io'', remote_vmname self, ''cat '' @ in_path]
      in if \<not> writable w out_path then (Inl (IOError out_path), self, w)
         else
           let w1 = w\<lparr>files := (files w)(out_path \<mapsto> [])\<rparr>;
               (r, w2) = run_child popen cmd_args_list None (Some out_path) w1
           in (case r of
                 SpawnFails \<Rightarrow> (Inl OSError, self, w2)
               | Exits returncode stdout stderr \<Rightarrow>
                   if returncode \<noteq> 0
                   then (Inl (RuntimeError (''Failed to fetch file to '' @ out_path)), self, w2)
                   else (Inr (), self, w2)))"

subsection \<open>Test doubles\<close>

text \<open>
  Stand-ins for \<^verbatim>\<open>qvm-run\<close> and a small local file system, for running the
  operations on concrete inputs: a program that echoes its input and exits with 0, one
  that does not know the service \<^verbatim>\<open>qubes.VMRootShell\<close> (exit code 127) and succeeds
  for every other service, one that prints a host name, and one that fails with exit
  code 1 after printing part of its output.
\<close>

definition stub_echo :: popen where
  "stub_echo w a i = Exits 0 (case i of None \<Rightarrow> [] | Some b \<Rightarrow> b) []"

definition stub_no_root_shell :: popen where
  "stub_no_root_shell w a i =
     (if a \<noteq> [] \<and> last a = ''qubes.VMRootShell'' then Exits 127 [] [] else Exits 0 [] [])"

definition stub_hostname :: popen where
  "stub_hostname w a i = Exits 0 (''box'' @ [NL]) []"

definition stub_broken :: popen where
  "stub_broken w a i = Exits 1 ''par'' ''cat: read error''"

definition no_files :: "string \<rightharpoonup> bytes" where
  "no_files p = None"

definition any_path :: "string \<Rightarrow> bool" where
  "any_path p = True"

definition world0 :: world where
  "world0 = \<lparr>files = no_files(''/tmp/a'' \<mapsto> ''abc''), writable = any_path, popen_calls = []\<rparr>"

definition work_vm :: connection where
  "work_vm = init \<lparr>remote_addr = ''work'', remote_user = None\<rparr>"

definition work_vm_root :: connection where
  "work_vm_root = init \<lparr>remote_addr = ''work'', remote_user = Some ''root''\<rparr>"


section \<open>Auxiliary facts\<close>


subsection \<open>Strings and the decorator\<close>

lemma endswith_NL: "endswith c [NL] \<longleftrightarrow> (\<exists>d. c = d @ [NL])"
proof
  assume "endswith c [NL]"
  then have l: "1 \<le> length c" and d: "drop (length c - 1) c = [NL]"
    by (simp_all add: endswith_def)
  have "c = take (length c - 1) c @ drop (length c - 1) c" by simp
  with d have "c = take (length c - 1) c @ [NL]" by simp
  then show "\<exists>d. c = d @ [NL]" ..
next
  assume "\<exists>d. c = d @ [NL]"
  then show "endswith c [NL]" by (auto simp: endswith_def)
qed

lemma endswith_frame: \<open>endswith (''cat > "'' @ p @ ''"'' @ [NL]) [NL]\<close>
  unfolding endswith_NL by (rule exI [of _ \<open>''cat > "'' @ p @ ''"''\<close>]) simp

lemma ensure_connect_id:
  "ensure_connect (\<lambda>s. s) self = self\<lparr>connected := True\<rparr>"
  by (cases self) (simp add: ensure_connect_def connect_def ConnectionBase_connect_def)


subsection \<open>Running a child process\<close>

lemma run_child_fst: "fst (run_child popen a i f w) = popen w a i"
  by (simp add: run_child_def Let_def)

lemma run_child_calls:
  "popen_calls (snd (run_child popen a i f w)) =
     popen_calls w @ [\<lparr>argv = a, input = i, stdout_path = f, result = popen w a i\<rparr>]"
  by (simp add: run_child_def Let_def split: option.split outcome.split)

lemma run_child_files:
  "files (snd (run_child popen a i f w)) =
     (case f of None \<Rightarrow> files w
      | Some path \<Rightarrow> (case popen w a i of SpawnFails \<Rightarrow> files w
                      | Exits rc out err \<Rightarrow> (files w)(path \<mapsto> out)))"
  by (simp add: run_child_def Let_def split: option.split outcome.split)

lemma qubes_Some:
  "qubes popen self (Some c) d sh w =
     (case fst (run_child popen
                  ([''qvm-run'', ''--pass-io'', ''--service''] @
                   (if user self = ''user'' then [] else [''-u'', user self]) @
                   [remote_vmname self, sh])
                  (Some ((if endswith c [NL] then c else c @ [NL]) @
                         (case d of None \<Rightarrow> [] | Some x \<Rightarrow> x))) None w) of
        SpawnFails \<Rightarrow> Inl OSError
      | Exits rc out err \<Rightarrow> Inr (rc, out, err),
      snd (run_child popen
                  ([''qvm-run'', ''--pass-io'', ''--service''] @
                   (if user self = ''user'' then [] else [''-u'', user self]) @
                   [remote_vmname self, sh])
                  (Some ((if endswith c [NL] then c else c @ [NL]) @
                         (case d of None \<Rightarrow> [] | Some x \<Rightarrow> x))) None w))"
  by (simp add: qubes_def to_bytes_def Let_def split_beta split: outcome.split)

lemma qubes_calls:
  "popen_calls (snd (qubes popen self (Some c) d sh w)) = popen_calls w @
     [\<lparr>argv = [''qvm-run'', ''--pass-io'', ''--service''] @
                (if user self = ''user'' then [] else [''-u'', user self]) @
                [remote_vmname self, sh],
       input = Some ((if endswith c [NL] then c else c @ [NL]) @
                     (case d of None \<Rightarrow> [] | Some x \<Rightarrow> x)),
       stdout_path = None,
       result = popen w ([''qvm-run'', ''--pass-io'', ''--service''] @
                (if user self = ''user'' then [] else [''-u'', user self]) @
                [remote_vmname self, sh])
                 (Some ((if endswith c [NL] then c else c @ [NL]) @
                     (case d of None \<Rightarrow> [] | Some x \<Rightarrow> x)))\<rparr>]"
  unfolding qubes_Some snd_conv run_child_calls ..

lemma qubes_fst:
  "fst (qubes popen self (Some c) d sh w) =
     (case popen w ([''qvm-run'', ''--pass-io'', ''--service''] @
                (if user self = ''user'' then [] else [''-u'', user self]) @
                [remote_vmname self, sh])
                 (Some ((if endswith c [NL] then c else c @ [NL]) @
                     (case d of None \<Rightarrow> [] | Some x \<Rightarrow> x))) of
        SpawnFails \<Rightarrow> Inl OSError
      | Exits rc out err \<Rightarrow> Inr (rc, out, err))"
  unfolding qubes_Some fst_conv run_child_fst ..


subsection \<open>The three operations, unfolded\<close>

lemma exec_command_unfold:
  "exec_command popen cmd in_data sudoable self w =
     (fst (qubes popen (self\<lparr>connected := True\<rparr>) (Some cmd) None ''qubes.VMShell'' w),
      self\<lparr>connected := True\<rparr>,
      snd (qubes popen (self\<lparr>connected := True\<rparr>) (Some cmd) None ''qubes.VMShell'' w))"
  by (cases self)
     (simp add: exec_command_def ConnectionBase_exec_command_def ensure_connect_id
        ensure_connect_def connect_def ConnectionBase_connect_def default_shell_def
        Let_def split_beta)

lemma fetch_file_unfold:
  "fetch_file popen in_path out_path self w =
     (let s = self\<lparr>connected := True\<rparr>;
          R = run_child popen [''qvm-run'', ''--pass-io'', remote_vmname self, ''cat '' @ in_path]
                None (Some out_path) (w\<lparr>files := (files w)(out_path \<mapsto> [])\<rparr>)
      in if \<not> writable w out_path then (Inl (IOError out_path), s, w)
         else (case fst R of
                 SpawnFails \<Rightarrow> Inl OSError
               | Exits rc out err \<Rightarrow>
                   if rc \<noteq> 0 then Inl (RuntimeError (''Failed to fetch file to '' @ out_path))
                   else Inr (),
               s, snd R))"
  by (simp add: fetch_file_def ConnectionBase_fetch_file_def ensure_connect_id Let_def
      split_beta split: outcome.split)

lemma put_file_via:
  assumes "files w in_path = Some data"
  shows \<open>put_file popen in_path out_path self w =
     (let s = self\<lparr>connected := True\<rparr>;
          fail = Inl (RuntimeError (''Failed to put_file to '' @ out_path));
          Q1 = qubes popen s (Some (''cat > "'' @ out_path @ ''"'' @ [NL])) (Some data)
                 ''qubes.VMRootShell'' w;
          Q2 = qubes popen s (Some (''cat > "'' @ out_path @ ''"'' @ [NL])) (Some data)
                 ''qubes.VMShell'' (snd Q1)
      in case fst Q1 of
           Inl e \<Rightarrow> (Inl e, s, snd Q1)
         | Inr x \<Rightarrow>
             if fst x = 127
             then (case fst Q2 of
                     Inl e \<Rightarrow> (Inl e, s, snd Q2)
                   | Inr y \<Rightarrow> (if fst y \<noteq> 0 then fail else Inr (), s, snd Q2))
             else (if fst x \<noteq> 0 then fail else Inr (), s, snd Q1))\<close>
  using assms
  by (simp add: put_file_def ConnectionBase_put_file_def ensure_connect_id default_shell_def
      Let_def split_beta split: sum.split)

lemma put_file_summary:
  assumes "files w in_path = Some data"
  shows \<open>\<exists>c1 c2.
     argv c1 = [''qvm-run'', ''--pass-io'', ''--service''] @
                (if user self = ''user'' then [] else [''-u'', user self]) @
                [remote_vmname self, ''qubes.VMRootShell''] \<and>
     argv c2 = [''qvm-run'', ''--pass-io'', ''--service''] @
                (if user self = ''user'' then [] else [''-u'', user self]) @
                [remote_vmname self, ''qubes.VMShell''] \<and>
     input c1 = Some (''cat > "'' @ out_path @ ''"'' @ [NL] @ data) \<and>
     input c2 = Some (''cat > "'' @ out_path @ ''"'' @ [NL] @ data) \<and>
     result c1 = popen w (argv c1) (input c1) \<and>
     (case result c1 of
        SpawnFails \<Rightarrow>
          popen_calls (snd (snd (put_file popen in_path out_path self w))) = popen_calls w @ [c1] \<and>
          fst (put_file popen in_path out_path self w) = Inl OSError
      | Exits rc out err \<Rightarrow>
          if rc = 127
          then popen_calls (snd (snd (put_file popen in_path out_path self w))) =
                 popen_calls w @ [c1, c2] \<and>
               (case result c2 of
                  SpawnFails \<Rightarrow> fst (put_file popen in_path out_path self w) = Inl OSError
                | Exits rc2 out2 err2 \<Rightarrow>
                    fst (put_file popen in_path out_path self w) =
                      (if rc2 \<noteq> 0
                       then Inl (RuntimeError (''Failed to put_file to '' @ out_path))
                       else Inr ()))
          else popen_calls (snd (snd (put_file popen in_path out_path self w))) =
                 popen_calls w @ [c1] \<and>
               fst (put_file popen in_path out_path self w) =
                 (if rc \<noteq> 0
                  then Inl (RuntimeError (''Failed to put_file to '' @ out_path))
                  else Inr ()))\<close>
proof -
  define s where "s = self\<lparr>connected := True\<rparr>"
  define cmd where \<open>cmd = ''cat > "'' @ out_path @ ''"'' @ [NL]\<close>
  define a where "a = (\<lambda>sh. [''qvm-run'', ''--pass-io'', ''--service''] @
                (if user self = ''user'' then [] else [''-u'', user self]) @
                [remote_vmname self, sh])"
  define i where "i = Some (cmd @ data)"
  define fail :: "error + unit"
    where "fail = Inl (RuntimeError (''Failed to put_file to '' @ out_path))"
  define Q1 where "Q1 = qubes popen s (Some cmd) (Some data) ''qubes.VMRootShell'' w"
  define Q2 where "Q2 = qubes popen s (Some cmd) (Some data) ''qubes.VMShell'' (snd Q1)"
  define c1 where "c1 = \<lparr>argv = a ''qubes.VMRootShell'', input = i, stdout_path = None,
                          result = popen w (a ''qubes.VMRootShell'') i\<rparr>"
  define c2 where "c2 = \<lparr>argv = a ''qubes.VMShell'', input = i, stdout_path = None,
                          result = popen (snd Q1) (a ''qubes.VMShell'') i\<rparr>"
  define P where "P = put_file popen in_path out_path self w"
  have e: "endswith cmd [NL]"
    unfolding cmd_def by (rule endswith_frame)
  have us: "user s = user self" "remote_vmname s = remote_vmname self"
    by (simp_all add: s_def)
  have f1: "fst Q1 = (case result c1 of SpawnFails \<Rightarrow> Inl OSError
                      | Exits rc out err \<Rightarrow> Inr (rc, out, err))"
    unfolding Q1_def qubes_fst us by (simp add: e c1_def a_def i_def)
  have l1: "popen_calls (snd Q1) = popen_calls w @ [c1]"
    unfolding Q1_def qubes_calls us by (simp add: e c1_def a_def i_def)
  have f2: "fst Q2 = (case result c2 of SpawnFails \<Rightarrow> Inl OSError
                      | Exits rc out err \<Rightarrow> Inr (rc, out, err))"
    unfolding Q2_def qubes_fst us by (simp add: e c2_def a_def i_def)
  have l2: "popen_calls (snd Q2) = popen_calls w @ [c1, c2]"
    unfolding Q2_def qubes_calls us l1 by (simp add: e c2_def a_def i_def)
  have P: "P = (case fst Q1 of
           Inl e \<Rightarrow> (Inl e, s, snd Q1)
         | Inr x \<Rightarrow>
             if fst x = 127
             then (case fst Q2 of
                     Inl e \<Rightarrow> (Inl e, s, snd Q2)
                   | Inr y \<Rightarrow> (if fst y \<noteq> 0 then fail else Inr (), s, snd Q2))
             else (if fst x \<noteq> 0 then fail else Inr (), s, snd Q1))"
    unfolding P_def put_file_via [OF assms] Let_def
    by (simp only: s_def cmd_def fail_def Q1_def Q2_def)
  have main: "(case result c1 of
        SpawnFails \<Rightarrow> popen_calls (snd (snd P)) = popen_calls w @ [c1] \<and> fst P = Inl OSError
      | Exits rc out err \<Rightarrow>
          if rc = 127
          then popen_calls (snd (snd P)) = popen_calls w @ [c1, c2] \<and>
               (case result c2 of
                  SpawnFails \<Rightarrow> fst P = Inl OSError
                | Exits rc2 out2 err2 \<Rightarrow> fst P = (if rc2 \<noteq> 0 then fail else Inr ()))
          else popen_calls (snd (snd P)) = popen_calls w @ [c1] \<and>
               fst P = (if rc \<noteq> 0 then fail else Inr ()))"
    unfolding P f1 f2 by (simp add: l1 l2 split: outcome.split)
  have "argv c1 = a ''qubes.VMRootShell''" "argv c2 = a ''qubes.VMShell''"
    "input c1 = i" "input c2 = i" "result c1 = popen w (argv c1) (input c1)"
    by (simp_all add: c1_def c2_def)
  with main show ?thesis
    unfolding P_def fail_def a_def i_def cmd_def append_assoc by blast
qed

lemma put_file_cases [consumes 1, case_names first_only retried]:
  assumes "files w in_path = Some data"
  obtains
    (first_only) c1 where
      "argv c1 = [''qvm-run'', ''--pass-io'', ''--service''] @
                (if user self = ''user'' then [] else [''-u'', user self]) @
                [remote_vmname self, ''qubes.VMRootShell'']"
      \<open>input c1 = Some (''cat > "'' @ out_path @ ''"'' @ [NL] @ data)\<close>
      "result c1 = popen w (argv c1) (input c1)"
      "\<And>out err. result c1 \<noteq> Exits 127 out err"
      "popen_calls (snd (snd (put_file popen in_path out_path self w))) = popen_calls w @ [c1]"
      "fst (put_file popen in_path out_path self w) =
         (case result c1 of
            SpawnFails \<Rightarrow> Inl OSError
          | Exits rc out err \<Rightarrow>
              if rc \<noteq> 0 then Inl (RuntimeError (''Failed to put_file to '' @ out_path))
              else Inr ())"
  | (retried) c1 c2 out err where
      "argv c1 = [''qvm-run'', ''--pass-io'', ''--service''] @
                (if user self = ''user'' then [] else [''-u'', user self]) @
                [remote_vmname self, ''qubes.VMRootShell'']"
      "argv c2 = [''qvm-run'', ''--pass-io'', ''--service''] @
                (if user self = ''user'' then [] else [''-u'', user self]) @
                [remote_vmname self, ''qubes.VMShell'']"
      \<open>input c1 = Some (''cat > "'' @ out_path @ ''"'' @ [NL] @ data)\<close>
      \<open>input c2 = Some (''cat > "'' @ out_path @ ''"'' @ [NL] @ data)\<close>
      "result c1 = popen w (argv c1) (input c1)"
      "result c1 = Exits 127 out err"
      "popen_calls (snd (snd (put_file popen in_path out_path self w))) = popen_calls w @ [c1, c2]"
      "fst (put_file popen in_path out_path self w) =
         (case result c2 of
            SpawnFails \<Rightarrow> Inl OSError
          | Exits rc out err \<Rightarrow>
              if rc \<noteq> 0 then Inl (RuntimeError (''Failed to put_file to '' @ out_path))
              else Inr ())"
proof -
  from put_file_summary [OF assms, where popen = popen and out_path = out_path and self = self]
  obtain c1 c2 where
    a1: "argv c1 = [''qvm-run'', ''--pass-io'', ''--service''] @
                (if user self = ''user'' then [] else [''-u'', user self]) @
                [remote_vmname self, ''qubes.VMRootShell'']" and
    a2: "argv c2 = [''qvm-run'', ''--pass-io'', ''--service''] @
                (if user self = ''user'' then [] else [''-u'', user self]) @
                [remote_vmname self, ''qubes.VMShell'']" and
    i1: \<open>input c1 = Some (''cat > "'' @ out_path @ ''"'' @ [NL] @ data)\<close> and
    i2: \<open>input c2 = Some (''cat > "'' @ out_path @ ''"'' @ [NL] @ data)\<close> and
    r: "result c1 = popen w (argv c1) (input c1)" and
    m: "(case result c1 of
        SpawnFails \<Rightarrow>
          popen_calls (snd (snd (put_file popen in_path out_path self w))) = popen_calls w @ [c1] \<and>
          fst (put_file popen in_path out_path self w) = Inl OSError
      | Exits rc out err \<Rightarrow>
          if rc = 127
          then popen_calls (snd (snd (put_file popen in_path out_path self w))) =
                 popen_calls w @ [c1, c2] \<and>
               (case result c2 of
                  SpawnFails \<Rightarrow> fst (put_file popen in_path out_path self w) = Inl OSError
                | Exits rc2 out2 err2 \<Rightarrow>
                    fst (put_file popen in_path out_path self w) =
                      (if rc2 \<noteq> 0
                       then Inl (RuntimeError (''Failed to put_file to '' @ out_path))
                       else Inr ()))
          else popen_calls (snd (snd (put_file popen in_path out_path self w))) =
                 popen_calls w @ [c1] \<and>
               fst (put_file popen in_path out_path self w) =
                 (if rc \<noteq> 0
                  then Inl (RuntimeError (''Failed to put_file to '' @ out_path))
                  else Inr ()))"
    by blast
  show thesis
  proof (cases "\<exists>out err. result c1 = Exits 127 out err")
    case True
    then obtain out err where e: "result c1 = Exits 127 out err" by blast
    from m e have
      "popen_calls (snd (snd (put_file popen in_path out_path self w))) = popen_calls w @ [c1, c2]"
      "fst (put_file popen in_path out_path self w) =
         (case result c2 of
            SpawnFails \<Rightarrow> Inl OSError
          | Exits rc out err \<Rightarrow>
              if rc \<noteq> 0 then Inl (RuntimeError (''Failed to put_file to '' @ out_path))
              else Inr ())"
      by (simp_all split: outcome.splits)
    with a1 a2 i1 i2 r e show thesis by (rule retried)
  next
    case False
    then have n: "\<And>out err. result c1 \<noteq> Exits 127 out err" by blast
    from m n have
      "popen_calls (snd (snd (put_file popen in_path out_path self w))) = popen_calls w @ [c1]"
      "fst (put_file popen in_path out_path self w) =
         (case result c1 of
            SpawnFails \<Rightarrow> Inl OSError
          | Exits rc out err \<Rightarrow>
              if rc \<noteq> 0 then Inl (RuntimeError (''Failed to put_file to '' @ out_path))
              else Inr ())"
      by (auto split: outcome.splits if_splits)
    with a1 i1 r n show thesis by (rule first_only)
  qed
qed

lemma base_after_close:
  "ensure_connect (\<lambda>s. s) (close self) = ensure_connect (\<lambda>s. s) (connect self)"
  by (simp add: ensure_connect_id close_def connect_def ConnectionBase_connect_def
      ConnectionBase_close_def)

lemma put_file_self:
  "ensure_connect (\<lambda>s. s) self = ensure_connect (\<lambda>s. s) self' \<Longrightarrow>
   put_file popen in_path out_path self w = put_file popen in_path out_path self' w"
  by (simp add: put_file_def ConnectionBase_put_file_def)

lemma put_file_connected: "connected (fst (snd (put_file popen in_path out_path self w)))"
  by (simp add: put_file_def ConnectionBase_put_file_def ensure_connect_id Let_def split_beta
      split: option.split sum.split)


subsection \<open>The test doubles\<close>

lemmas fixtures = world0_def work_vm_def work_vm_root_def init_def no_files_def any_path_def
  stub_echo_def stub_no_root_shell_def stub_hostname_def stub_broken_def
lemmas run_defs = put_file_def fetch_file_def exec_command_def qubes_def run_child_def
  ConnectionBase_put_file_def ConnectionBase_fetch_file_def ConnectionBase_exec_command_def
  ensure_connect_def connect_def close_def ConnectionBase_connect_def ConnectionBase_close_def
  to_bytes_def endswith_def default_shell_def Let_def

lemma world0_facts:
  "files world0 ''/tmp/a'' = Some ''abc''" "popen_calls world0 = []"
  "writable world0 ''/tmp/h''"
  by (simp_all add: fixtures)

lemma put_no_root_calls:
  "result (last (popen_calls (snd (snd (put_file stub_no_root_shell ''/tmp/a'' ''/home/user/a''
                                    work_vm world0))))) = Exits 0 [] []"
  by (simp add: run_defs fixtures)

lemma put_broken_calls:
  "result (last (popen_calls (snd (snd (put_file stub_broken ''/tmp/a'' ''/home/user/a''
                                    work_vm world0))))) = Exits 1 ''par'' ''cat: read error''"
  by (simp add: run_defs fixtures)

lemma fetch_broken_calls:
  "map result (popen_calls (snd (snd (fetch_file stub_broken ''/etc/hostname'' ''/tmp/h''
                                    work_vm_root world0)))) = [Exits 1 ''par'' ''cat: read error'']"
  by (simp add: run_defs fixtures)

lemma fetch_hostname_calls:
  "map result (popen_calls (snd (snd (fetch_file stub_hostname ''/etc/hostname'' ''/tmp/h''
                                    work_vm_root world0)))) = [Exits 0 (''box'' @ [NL]) []]"
  by (simp add: run_defs fixtures)


section \<open>The properties\<close>

subsection \<open>C1\<close>

text \<open>
  Claim C1 (fallback of \<^verbatim>\<open>put_file\<close>). When the local file can be read, the first call
  made by a put goes to the service \<^verbatim>\<open>qubes.VMRootShell\<close>. If that call exits with code
  127, exactly one more call follows, to \<^verbatim>\<open>qubes.VMShell\<close>, with the same argument vector
  up to the service name and the same bytes on its standard input (command text and file
  contents). If the first call exits with any other code, no further call is made.
\<close>

theorem put_file_fallback:
  assumes "files w in_path = Some data"
  shows "\<exists>first rest.
     popen_calls (snd (snd (put_file popen in_path out_path self w))) = popen_calls w @ first # rest \<and>
     result first = popen w (argv first) (input first) \<and>
     argv first \<noteq> [] \<and> last (argv first) = ''qubes.VMRootShell'' \<and>
     (\<forall>out err. result first = Exits 127 out err \<longrightarrow>
        (\<exists>retry. rest = [retry] \<and>
           argv retry = butlast (argv first) @ [''qubes.VMShell''] \<and>
           input retry = input first)) \<and>
     (\<forall>rc out err. result first = Exits rc out err \<longrightarrow> rc \<noteq> 127 \<longrightarrow> rest = [])"
  using assms
proof (cases rule: put_file_cases [where popen = popen and out_path = out_path and self = self])
  case (first_only c1)
  have "argv c1 \<noteq> []" "last (argv c1) = ''qubes.VMRootShell''"
    unfolding first_only(1) by simp_all
  with first_only(3,4,5) show ?thesis by blast
next
  case (retried c1 c2 out err)
  have "argv c1 \<noteq> []" "last (argv c1) = ''qubes.VMRootShell''"
    unfolding retried(1) by simp_all
  moreover have "argv c2 = butlast (argv c1) @ [''qubes.VMShell'']"
    unfolding retried(1,2) by (simp add: butlast_append)
  moreover have "input c2 = input c1"
    unfolding retried(3,4) ..
  ultimately show ?thesis
    using retried(5,6,7) by auto
qed

text \<open>
  The claim at work: with a program that does not know the root shell, the put makes two
  calls, the second to the default shell with the same input; with a program that fails
  with code 1, it makes one call.
\<close>

theorem put_file_fallback_witness:
  "files world0 ''/tmp/a'' = Some ''abc'' \<and>
   length (popen_calls (snd (snd (put_file stub_no_root_shell ''/tmp/a'' ''/home/user/a''
                                    work_vm world0)))) = 2 \<and>
   last (argv (popen_calls (snd (snd (put_file stub_no_root_shell ''/tmp/a'' ''/home/user/a''
                                    work_vm world0))) ! 0)) = ''qubes.VMRootShell'' \<and>
   last (argv (popen_calls (snd (snd (put_file stub_no_root_shell ''/tmp/a'' ''/home/user/a''
                                    work_vm world0))) ! 1)) = ''qubes.VMShell'' \<and>
   input (popen_calls (snd (snd (put_file stub_no_root_shell ''/tmp/a'' ''/home/user/a''
                                    work_vm world0))) ! 1) =
   input (popen_calls (snd (snd (put_file stub_no_root_shell ''/tmp/a'' ''/home/user/a''
                                    work_vm world0))) ! 0) \<and>
   length (popen_calls (snd (snd (put_file stub_broken ''/tmp/a'' ''/home/user/a''
                                    work_vm world0)))) = 1"
proof -
  note f = world0_facts(1)
  from put_file_fallback [OF f, where popen = stub_no_root_shell and out_path = "''/home/user/a''"
      and self = work_vm]
  obtain first rest where
    c: "popen_calls (snd (snd (put_file stub_no_root_shell ''/tmp/a'' ''/home/user/a''
          work_vm world0))) = first # rest" and
    r: "result first = stub_no_root_shell world0 (argv first) (input first)" and
    l: "argv first \<noteq> []" "last (argv first) = ''qubes.VMRootShell''" and
    y: "\<forall>out err. result first = Exits 127 out err \<longrightarrow>
        (\<exists>retry. rest = [retry] \<and>
           argv retry = butlast (argv first) @ [''qubes.VMShell''] \<and>
           input retry = input first)"
    unfolding world0_facts(2) append_Nil by (elim exE conjE) (rule that)
  from r l have "result first = Exits 127 [] []"
    by (simp add: stub_no_root_shell_def)
  with y obtain retry where
    t: "rest = [retry]" "argv retry = butlast (argv first) @ [''qubes.VMShell'']"
       "input retry = input first"
    by blast
  from put_file_fallback [OF f, where popen = stub_broken and out_path = "''/home/user/a''"
      and self = work_vm]
  obtain first' rest' where
    c': "popen_calls (snd (snd (put_file stub_broken ''/tmp/a'' ''/home/user/a''
          work_vm world0))) = first' # rest'" and
    r': "result first' = stub_broken world0 (argv first') (input first')" and
    n': "\<forall>rc out err. result first' = Exits rc out err \<longrightarrow> rc \<noteq> 127 \<longrightarrow> rest' = []"
    unfolding world0_facts(2) append_Nil by (elim exE conjE) (rule that)
  from r' have "result first' = Exits 1 ''par'' ''cat: read error''"
    by (simp add: stub_broken_def)
  with n' have "rest' = []"
    by simp
  with c' c t l f show ?thesis
    by simp
qed

subsection \<open>C2\<close>

text \<open>
  Claim C2 (newline). \<^verbatim>\<open>_qubes\<close> makes one call. If the command does not end in a
  newline, the bytes on the child's standard input are the command, one newline, and the
  payload; if it ends in a newline, they are the command as it is and the payload.
\<close>

theorem qubes_newline:
  "\<exists>call. popen_calls (snd (qubes popen self (Some c) in_data shell w)) = popen_calls w @ [call] \<and>
     ((\<nexists>d. c = d @ [NL]) \<longrightarrow>
        input call = Some (c @ [NL] @ (case in_data of None \<Rightarrow> [] | Some x \<Rightarrow> x))) \<and>
     ((\<exists>d. c = d @ [NL]) \<longrightarrow>
        input call = Some (c @ (case in_data of None \<Rightarrow> [] | Some x \<Rightarrow> x)))"
  unfolding qubes_calls endswith_NL by simp

text \<open>
  The claim at work, on \<^verbatim>\<open>ls\<close> without and with a newline.
\<close>

theorem qubes_newline_witness:
  "map input (popen_calls (snd (qubes stub_echo work_vm (Some ''ls'') None default_shell world0)))
     = [Some (''ls'' @ [NL])] \<and>
   map input (popen_calls (snd (qubes stub_echo work_vm (Some (''ls'' @ [NL])) (Some ''abc'')
                                  default_shell world0)))
     = [Some (''ls'' @ [NL] @ ''abc'')]"
proof -
  have n: "\<nexists>d. ''ls'' = d @ [NL]"
    by (simp add: endswith_NL [symmetric] endswith_def)
  have y: "\<exists>d. ''ls'' @ [NL] = d @ [NL]"
    by blast
  have e: "popen_calls world0 = []"
    by (simp add: world0_def)
  from n qubes_newline [of stub_echo work_vm "''ls''" None default_shell world0]
  have "map input (popen_calls (snd (qubes stub_echo work_vm (Some ''ls'') None default_shell world0)))
     = [Some (''ls'' @ [NL])]"
    unfolding e by auto
  moreover from y qubes_newline [of stub_echo work_vm "''ls'' @ [NL]" "Some ''abc''" default_shell world0]
  have "map input (popen_calls (snd (qubes stub_echo work_vm (Some (''ls'' @ [NL])) (Some ''abc'')
                                  default_shell world0)))
     = [Some (''ls'' @ [NL] @ ''abc'')]"
    unfolding e by auto
  ultimately show ?thesis ..
qed

subsection \<open>C3\<close>

text \<open>
  Claim C3 (argument vector). The argument vector of the call made by \<^verbatim>\<open>_qubes\<close> is
  the three base strings, then the target name and the service name when the user is
  \<^verbatim>\<open>"user"\<close>, and the three base strings, \<^verbatim>\<open>-u\<close>, the user, the target name and the
  service name for every other user.
\<close>

theorem qubes_argv:
  "\<exists>call. popen_calls (snd (qubes popen self (Some c) in_data shell w)) = popen_calls w @ [call] \<and>
     (user self = ''user'' \<longrightarrow>
        argv call = [''qvm-run'', ''--pass-io'', ''--service'', remote_vmname self, shell]) \<and>
     (user self \<noteq> ''user'' \<longrightarrow>
        argv call = [''qvm-run'', ''--pass-io'', ''--service'', ''-u'', user self,
                     remote_vmname self, shell])"
  unfolding qubes_calls by simp

text \<open>
  The claim at work, for the default user and for \<^verbatim>\<open>root\<close>.
\<close>

theorem qubes_argv_witness:
  "map argv (popen_calls (snd (qubes stub_echo work_vm (Some ''ls'') None default_shell world0)))
     = [[''qvm-run'', ''--pass-io'', ''--service'', ''work'', ''qubes.VMShell'']] \<and>
   map argv (popen_calls (snd (qubes stub_echo work_vm_root (Some ''ls'') None default_shell world0)))
     = [[''qvm-run'', ''--pass-io'', ''--service'', ''-u'', ''root'', ''work'', ''qubes.VMShell'']]"
proof -
  have u: "user work_vm = ''user''" "remote_vmname work_vm = ''work''"
    "user work_vm_root = ''root''" "remote_vmname work_vm_root = ''work''"
    "popen_calls world0 = []" "default_shell = ''qubes.VMShell''"
    by (simp_all add: fixtures default_shell_def)
  from qubes_argv [of stub_echo work_vm "''ls''" None default_shell world0]
  have "map argv (popen_calls (snd (qubes stub_echo work_vm (Some ''ls'') None default_shell world0)))
     = [[''qvm-run'', ''--pass-io'', ''--service'', ''work'', ''qubes.VMShell'']]"
    unfolding u by auto
  moreover from qubes_argv [of stub_echo work_vm_root "''ls''" None default_shell world0]
  have "map argv (popen_calls (snd (qubes stub_echo work_vm_root (Some ''ls'') None default_shell world0)))
     = [[''qvm-run'', ''--pass-io'', ''--service'', ''-u'', ''root'', ''work'', ''qubes.VMShell'']]"
    unfolding u by auto
  ultimately show ?thesis ..
qed

subsection \<open>C4\<close>

text \<open>
  Claim C4 (stream of a put). When the local file holds \<open>data\<close>, a put makes at least
  one call, and every call it makes has on its standard input the text
  \<^verbatim>\<open>cat > "<out_path>"\<close> with the path as given, a newline, and then \<open>data\<close>
  unchanged.
\<close>

theorem put_file_stream:
  assumes "files w in_path = Some data"
  shows \<open>\<exists>calls. calls \<noteq> [] \<and>
     popen_calls (snd (snd (put_file popen in_path out_path self w))) = popen_calls w @ calls \<and>
     (\<forall>call \<in> set calls.
        input call = Some (''cat > "'' @ out_path @ ''"'' @ [NL] @ data))\<close>
  using assms
proof (cases rule: put_file_cases [where popen = popen and out_path = out_path and self = self])
  case (first_only c1)
  from first_only(2,5) show ?thesis
    by (intro exI [of _ "[c1]"]) simp
next
  case (retried c1 c2 out err)
  from retried(3,4,7) show ?thesis
    by (intro exI [of _ "[c1, c2]"]) simp
qed

text \<open>
  The claim at work, on a file of three bytes and a put that falls back.
\<close>

theorem put_file_stream_witness:
  \<open>files world0 ''/tmp/a'' = Some ''abc'' \<and>
   set (map input (popen_calls (snd (snd (put_file stub_no_root_shell ''/tmp/a'' ''/home/user/a''
                                            work_vm world0))))) =
     {Some (''cat > "/home/user/a"'' @ [NL] @ ''abc'')}\<close>
proof -
  note f = world0_facts(1)
  from put_file_stream [OF f, where popen = stub_no_root_shell and out_path = "''/home/user/a''"
      and self = work_vm]
  obtain calls where
    "calls \<noteq> []"
    "popen_calls (snd (snd (put_file stub_no_root_shell ''/tmp/a'' ''/home/user/a''
          work_vm world0))) = calls"
    \<open>\<forall>call \<in> set calls. input call = Some (''cat > "'' @ ''/home/user/a'' @ ''"'' @ [NL] @ ''abc'')\<close>
    unfolding world0_facts(2) by auto
  with f show ?thesis
    by (cases calls) auto
qed

subsection \<open>C5\<close>

text \<open>
  Claim C5 (operations after \<^verbatim>\<open>close\<close>), as amended. After \<^verbatim>\<open>close\<close> none of
  \<^verbatim>\<open>exec_command\<close>, \<^verbatim>\<open>put_file\<close> and \<^verbatim>\<open>fetch_file\<close> fails for want of a
  connection: \<^verbatim>\<open>ensure_connect\<close> calls \<^verbatim>\<open>_connect\<close> first, so each of them does what it
  does on a connected object and leaves the flag set.
\<close>

theorem operations_after_close:
  "exec_command popen cmd in_data sudoable (close self) w =
     exec_command popen cmd in_data sudoable (connect self) w \<and>
   put_file popen in_path out_path (close self) w =
     put_file popen in_path out_path (connect self) w \<and>
   fetch_file popen in_path out_path (close self) w =
     fetch_file popen in_path out_path (connect self) w \<and>
   connected (fst (snd (exec_command popen cmd in_data sudoable (close self) w))) \<and>
   connected (fst (snd (put_file popen in_path out_path (close self) w))) \<and>
   connected (fst (snd (fetch_file popen in_path out_path (close self) w)))"
proof -
  have c: "(close self)\<lparr>connected := True\<rparr> = (connect self)\<lparr>connected := True\<rparr>"
    "remote_vmname (close self) = remote_vmname (connect self)"
    by (simp_all add: close_def connect_def ConnectionBase_connect_def ConnectionBase_close_def)
  have "exec_command popen cmd in_data sudoable (close self) w =
     exec_command popen cmd in_data sudoable (connect self) w"
    unfolding exec_command_unfold c ..
  moreover have "put_file popen in_path out_path (close self) w =
     put_file popen in_path out_path (connect self) w"
    by (rule put_file_self) (rule base_after_close)
  moreover have "fetch_file popen in_path out_path (close self) w =
     fetch_file popen in_path out_path (connect self) w"
    unfolding fetch_file_unfold c ..
  moreover have "connected (fst (snd (exec_command popen cmd in_data sudoable (close self) w)))"
    unfolding exec_command_unfold by simp
  moreover have "connected (fst (snd (fetch_file popen in_path out_path (close self) w)))"
    unfolding fetch_file_unfold Let_def by simp
  ultimately show ?thesis
    using put_file_connected by blast
qed

text \<open>
  The claim as first stated fails: on a closed connection, a put returns normally and has
  run \<^verbatim>\<open>qvm-run\<close>.
\<close>

theorem put_file_after_close_counterexample:
  "\<not> connected (close (connect work_vm)) \<and>
   fst (put_file stub_echo ''/tmp/a'' ''/home/user/a'' (close (connect work_vm)) world0) = Inr () \<and>
   map argv (popen_calls (snd (snd (put_file stub_echo ''/tmp/a'' ''/home/user/a''
                                      (close (connect work_vm)) world0)))) =
     [[''qvm-run'', ''--pass-io'', ''--service'', ''work'', ''qubes.VMRootShell'']]"
  by (simp add: run_defs fixtures)

subsection \<open>C6\<close>

text \<open>
  Claim C6 (failure of a put). When the local file can be read, a put makes at least one
  call; it ends with \<^verbatim>\<open>RuntimeError\<close> \<^verbatim>\<open>Failed to put_file to <out_path>\<close> exactly when
  the last call it made exited with a code other than 0, and returns normally exactly when
  that call exited with 0.
\<close>

theorem put_file_raises:
  assumes "files w in_path = Some data"
  shows "length (popen_calls w) < length (popen_calls (snd (snd (put_file popen in_path out_path self w)))) \<and>
    (fst (put_file popen in_path out_path self w) =
        Inl (RuntimeError (''Failed to put_file to '' @ out_path)) \<longleftrightarrow>
     (\<exists>rc out err. result (last (popen_calls (snd (snd (put_file popen in_path out_path self w)))))
          = Exits rc out err \<and> rc \<noteq> 0)) \<and>
    (fst (put_file popen in_path out_path self w) = Inr () \<longleftrightarrow>
     (\<exists>out err. result (last (popen_calls (snd (snd (put_file popen in_path out_path self w)))))
          = Exits 0 out err))"
  using assms
proof (cases rule: put_file_cases [where popen = popen and out_path = out_path and self = self])
  case (first_only c1)
  show ?thesis
    unfolding first_only(5,6) by (simp split: outcome.split)
next
  case (retried c1 c2 out err)
  show ?thesis
    unfolding retried(7,8) by (simp split: outcome.split)
qed

text \<open>
  The claim at work: success after the fallback, and failure on exit code 1.
\<close>

theorem put_file_raises_witness:
  "files world0 ''/tmp/a'' = Some ''abc'' \<and>
   fst (put_file stub_no_root_shell ''/tmp/a'' ''/home/user/a'' work_vm world0) = Inr () \<and>
   fst (put_file stub_broken ''/tmp/a'' ''/home/user/a'' work_vm world0) =
     Inl (RuntimeError ''Failed to put_file to /home/user/a'')"
proof -
  note f = world0_facts(1)
  from put_file_raises [OF f, where popen = stub_no_root_shell and out_path = "''/home/user/a''"
      and self = work_vm]
  have a: "fst (put_file stub_no_root_shell ''/tmp/a'' ''/home/user/a'' work_vm world0) = Inr ()"
    unfolding put_no_root_calls by simp
  from put_file_raises [OF f, where popen = stub_broken and out_path = "''/home/user/a''"
      and self = work_vm]
  have "fst (put_file stub_broken ''/tmp/a'' ''/home/user/a'' work_vm world0) =
     Inl (RuntimeError ''Failed to put_file to /home/user/a'')"
    unfolding put_broken_calls by simp
  with a f show ?thesis
    by simp
qed

subsection \<open>C7\<close>

text \<open>
  Claim C7 (fetch). When the local file can be opened for writing, a fetch makes one call
  with its output redirected to that file. When the call exits, the file holds the bytes
  the child wrote; on a code other than 0 the fetch ends with \<^verbatim>\<open>RuntimeError\<close>
  \<^verbatim>\<open>Failed to fetch file to <out_path>\<close> and the file keeps those bytes, on 0 it returns
  normally.
\<close>

theorem fetch_file_result:
  assumes "writable w out_path"
  shows "\<exists>call.
     popen_calls (snd (snd (fetch_file popen in_path out_path self w))) = popen_calls w @ [call] \<and>
     stdout_path call = Some out_path \<and>
     (\<forall>rc out err. result call = Exits rc out err \<longrightarrow>
        files (snd (snd (fetch_file popen in_path out_path self w))) out_path = Some out \<and>
        (rc \<noteq> 0 \<longrightarrow> fst (fetch_file popen in_path out_path self w) =
                      Inl (RuntimeError (''Failed to fetch file to '' @ out_path))) \<and>
        (rc = 0 \<longrightarrow> fst (fetch_file popen in_path out_path self w) = Inr ()))"
  unfolding fetch_file_unfold Let_def using assms
  by (auto simp add: run_child_calls run_child_files run_child_fst)

text \<open>
  The claim at work: a child that fails after three bytes, and one that prints a host
  name.
\<close>

theorem fetch_file_result_witness:
  "writable world0 ''/tmp/h'' \<and>
   fst (fetch_file stub_broken ''/etc/hostname'' ''/tmp/h'' work_vm_root world0) =
     Inl (RuntimeError ''Failed to fetch file to /tmp/h'') \<and>
   files (snd (snd (fetch_file stub_broken ''/etc/hostname'' ''/tmp/h'' work_vm_root world0)))
     ''/tmp/h'' = Some ''par'' \<and>
   fst (fetch_file stub_hostname ''/etc/hostname'' ''/tmp/h'' work_vm_root world0) = Inr () \<and>
   files (snd (snd (fetch_file stub_hostname ''/etc/hostname'' ''/tmp/h'' work_vm_root world0)))
     ''/tmp/h'' = Some (''box'' @ [NL])"
proof -
  note h = world0_facts(3)
  from fetch_file_result [OF h, of stub_broken "''/etc/hostname''" work_vm_root]
  have a: "fst (fetch_file stub_broken ''/etc/hostname'' ''/tmp/h'' work_vm_root world0) =
     Inl (RuntimeError ''Failed to fetch file to /tmp/h'') \<and>
   files (snd (snd (fetch_file stub_broken ''/etc/hostname'' ''/tmp/h'' work_vm_root world0)))
     ''/tmp/h'' = Some ''par''"
    using fetch_broken_calls unfolding world0_facts(2) by auto
  from fetch_file_result [OF h, of stub_hostname "''/etc/hostname''" work_vm_root]
  have "fst (fetch_file stub_hostname ''/etc/hostname'' ''/tmp/h'' work_vm_root world0) = Inr () \<and>
   files (snd (snd (fetch_file stub_hostname ''/etc/hostname'' ''/tmp/h'' work_vm_root world0)))
     ''/tmp/h'' = Some (''box'' @ [NL])"
    using fetch_hostname_calls unfolding world0_facts(2) by auto
  with a h show ?thesis
    by simp
qed

subsection \<open>C8\<close>

text \<open>
  Claim C8 (life cycle). A new connection is not connected, \<^verbatim>\<open>_connect\<close> sets the
  flag, \<^verbatim>\<open>close\<close> clears it, a second \<^verbatim>\<open>close\<close> changes nothing, and
  \<^verbatim>\<open>_connect\<close>, \<^verbatim>\<open>close\<close>, \<^verbatim>\<open>_connect\<close> ends connected.
\<close>

theorem lifecycle:
  "\<not> connected (init pc) \<and> connected (connect self) \<and> \<not> connected (close self) \<and>
   close (close self) = close self \<and> connected (connect (close (connect self))) \<and>
   connect (close (connect self)) = connect self"
  by (simp add: init_def connect_def close_def ConnectionBase_connect_def
      ConnectionBase_close_def Let_def split: option.split)

subsection \<open>C9\<close>

text \<open>
  Claim C9 (\<open>in_data\<close> of \<^verbatim>\<open>exec_command\<close>). The result, the connection and the world
  after \<^verbatim>\<open>exec_command\<close> are the same for any two values of \<open>in_data\<close>: the one call
  it makes has only the command, ended by a newline, on its standard input, although the
  class sets \<^verbatim>\<open>has_pipelining\<close>.
\<close>

theorem exec_command_in_data:
  "exec_command popen cmd in_data sudoable self w = exec_command popen cmd in_data' sudoable self w \<and>
   (\<exists>call. popen_calls (snd (snd (exec_command popen cmd in_data sudoable self w))) =
              popen_calls w @ [call] \<and>
            input call = Some (if endswith cmd [NL] then cmd else cmd @ [NL])) \<and>
   has_pipelining"
  unfolding exec_command_unfold
  by (simp add: qubes_calls has_pipelining_def)

subsection \<open>C10\<close>

text \<open>
  Claim C10 (argument vector of a fetch). When the local file can be opened for writing,
  the one call of a fetch has the argument vector \<^verbatim>\<open>qvm-run\<close>, \<^verbatim>\<open>--pass-io\<close>, the
  target name and \<^verbatim>\<open>cat <in_path>\<close>, with nothing for the user, and the outcome of the
  fetch is the same for every user of the connection.
\<close>

theorem fetch_file_argv:
  assumes "writable w out_path"
  shows "(\<exists>call.
     popen_calls (snd (snd (fetch_file popen in_path out_path self w))) = popen_calls w @ [call] \<and>
     argv call = [''qvm-run'', ''--pass-io'', remote_vmname self, ''cat '' @ in_path]) \<and>
     fst (fetch_file popen in_path out_path (self\<lparr>user := u\<rparr>) w) =
       fst (fetch_file popen in_path out_path self w) \<and>
     snd (snd (fetch_file popen in_path out_path (self\<lparr>user := u\<rparr>) w)) =
       snd (snd (fetch_file popen in_path out_path self w))"
  unfolding fetch_file_unfold Let_def using assms
  by (simp add: run_child_calls)

text \<open>
  The claim at work, for a connection whose user is \<^verbatim>\<open>root\<close>.
\<close>

theorem fetch_file_argv_witness:
  "writable world0 ''/tmp/h'' \<and> user work_vm_root = ''root'' \<and>
   map argv (popen_calls (snd (snd (fetch_file stub_hostname ''/etc/hostname'' ''/tmp/h''
                                      work_vm_root world0)))) =
     [[''qvm-run'', ''--pass-io'', ''work'', ''cat /etc/hostname'']]"
proof -
  note h = world0_facts(3)
  have u: "user work_vm_root = ''root''" "remote_vmname work_vm_root = ''work''"
    by (simp_all add: fixtures)
  from fetch_file_argv [OF h, where popen = stub_hostname and in_path = "''/etc/hostname''"
      and self = work_vm_root and u = "''user''"]
  have "map argv (popen_calls (snd (snd (fetch_file stub_hostname ''/etc/hostname'' ''/tmp/h''
                                      work_vm_root world0)))) =
     [[''qvm-run'', ''--pass-io'', ''work'', ''cat /etc/hostname'']]"
    unfolding world0_facts(2) u by auto
  with h u show ?thesis
    by simp
qed

end
